theory Spec2Isabelle
  imports Main "HOL-Library.AList" "HOL-Library.Char_ord" "HOL-Library.List_Lexorder"
begin

section \<open>A shallow embedding of the GraphQL client (graphql.go)\<close>

text \<open>
  The client of \<^verbatim>\<open>graphql.go\<close> builds a request body in one of three encodings, posts it
  through an injected HTTP client and reconciles the decoded answer with the HTTP status.
  The functions of the file are embedded below under their own names. What the file takes
  from Go's standard library is modelled as follows.
  \<^item> A JSON text is modelled by the document it denotes (type \<open>JSON\<close>), not by its bytes:
    the encoder's escaping and its trailing newline are not part of the model. A string
    value of a document is given by the Go string it was written from. The keys that an
    object gets from a Go map are given as the encoder writes them, with every byte that
    is not part of a valid UTF-8 sequence replaced by U+FFFD, because two keys of the map
    can be written as the same key of the object.
  \<^item> A multipart body is modelled by its boundary and the list of its parts.
  \<^item> What the library decides on data this file never inspects is a parameter, collected
    in the record \<open>library\<close>: the random boundary of a multipart writer, whether a URL
    parses, the canonical form of a header key, the default HTTP client, and the JSON
    decoder of the response.
  \<^item> The calls of the \<^verbatim>\<open>Log\<close> callback are left out: they return nothing and decide nothing.
  \<^item> Network activity is the list of requests handed to \<^verbatim>\<open>httpClient.Do\<close>, in order.
\<close>

subsection \<open>Errors\<close>

record graphErr =
  Message :: string

datatype error =
    Canceled
  | DeadlineExceeded
  | New string
  | Wrap error string
  | Errorf string
  | GraphErr graphErr
  | Opaque string

text \<open>
  \<open>Canceled\<close> and \<open>DeadlineExceeded\<close> are the two values of \<^verbatim>\<open>ctx.Err()\<close>, \<open>New\<close> is
  \<^verbatim>\<open>errors.New\<close>, \<open>Wrap\<close> is \<^verbatim>\<open>errors.Wrap\<close>, \<open>Errorf\<close> carries the text that
  \<^verbatim>\<open>fmt.Errorf\<close> formatted, \<open>GraphErr\<close> is a \<^verbatim>\<open>graphErr\<close> used as an error, and \<open>Opaque\<close> is
  an error made by the library (encoding/json, net/url, net/http, io).
\<close>

fun Error :: "error \<Rightarrow> string" where
  "Error Canceled = ''context canceled''"
| "Error DeadlineExceeded = ''context deadline exceeded''"
| "Error (New s) = s"
| "Error (Wrap e s) = s @ '': '' @ Error e"
| "Error (Errorf s) = s"
| "Error (GraphErr e) = ''graphql: '' @ Message e"
| "Error (Opaque s) = s"

text \<open>What a call gives back: the returned \<^verbatim>\<open>error\<close> (\<open>None\<close> is \<^verbatim>\<open>nil\<close>), or a panic.\<close>

datatype outcome = Returns "error option" | Panics

subsection \<open>strconv.Itoa\<close>

definition digit :: "nat \<Rightarrow> char" where
  "digit d = ''0123456789'' ! d"

fun decimal :: "nat \<Rightarrow> string" where
  "decimal n = (if n < 10 then [digit n] else decimal (n div 10) @ [digit (n mod 10)])"

definition Itoa :: "int \<Rightarrow> string" where
  "Itoa i = (if i < 0 then CHR ''-'' # decimal (nat (- i)) else decimal (nat i))"

subsection \<open>Strings as encoding/json writes them\<close>

text \<open>
  The encoder goes through a string with \<^verbatim>\<open>utf8.DecodeRuneInString\<close>. \<open>DecodeRune s\<close> is
  the number of bytes of the UTF-8 sequence that \<open>s\<close> starts with, and \<open>None\<close> where Go
  reports \<^verbatim>\<open>RuneError\<close> with size 1: a byte that cannot start a sequence, a sequence that
  is cut short, or a second byte outside the range that the first byte accepts (which
  rules out overlong forms, surrogates and values above U+10FFFF).
\<close>

definition between :: "nat \<Rightarrow> nat \<Rightarrow> char \<Rightarrow> bool" where
  "between lo hi c = (lo \<le> of_char c \<and> of_char c \<le> hi)"

definition accept :: "nat \<Rightarrow> nat \<Rightarrow> nat \<Rightarrow> string \<Rightarrow> nat option" where
  "accept sz lo hi s =
     (case s of
        [] \<Rightarrow> None
      | b1 # t \<Rightarrow>
          if length t < sz - 2 then None
          else if \<not> between lo hi b1 then None
          else if list_all (between 0x80 0xBF) (take (sz - 2) t) then Some sz
          else None)"

fun DecodeRune :: "string \<Rightarrow> nat option" where
  "DecodeRune [] = None"
| "DecodeRune (b0 # s) =
     (if between 0x00 0x7F b0 then Some 1
      else if between 0xC2 0xDF b0 then accept 2 0x80 0xBF s
      else if between 0xE0 0xE0 b0 then accept 3 0xA0 0xBF s
      else if between 0xE1 0xEC b0 then accept 3 0x80 0xBF s
      else if between 0xED 0xED b0 then accept 3 0x80 0x9F s
      else if between 0xEE 0xEF b0 then accept 3 0x80 0xBF s
      else if between 0xF0 0xF0 b0 then accept 4 0x90 0xBF s
      else if between 0xF1 0xF3 b0 then accept 4 0x80 0xBF s
      else if between 0xF4 0xF4 b0 then accept 4 0x80 0x8F s
      else None)"

text \<open>
  The string that the encoder writes for a Go string: valid sequences are kept, and every
  other byte is written as U+FFFD, whose UTF-8 bytes are \<^verbatim>\<open>EF BF BD\<close>.
\<close>

fun coerceUTF8 :: "string \<Rightarrow> string" where
  "coerceUTF8 [] = []"
| "coerceUTF8 (b0 # s) =
     (case DecodeRune (b0 # s) of
        None \<Rightarrow> [CHR 0xEF, CHR 0xBF, CHR 0xBD] @ coerceUTF8 s
      | Some n \<Rightarrow> b0 # take (n - 1) s @ coerceUTF8 (drop (n - 1) s))"

subsection \<open>Go values and their JSON encoding\<close>

datatype JSON =
    JNull
  | JBool bool
  | JNumber int
  | JString string
  | JArray "JSON list"
  | JObject "(string \<times> JSON) list"

text \<open>
  The values a variable can hold (\<^verbatim>\<open>interface{}\<close>): \<^verbatim>\<open>nil\<close>, booleans, integers, strings,
  slices and string-keyed maps of such values, and \<open>VChan\<close>, a value of a type that
  encoding/json refuses. A Go map is written as an association list and stands for
  \<open>map_of\<close> of that list; the \<^verbatim>\<open>nil\<close> map of a field of map type is \<open>None\<close>.
\<close>

datatype go_value =
    VNil
  | VBool bool
  | VInt int
  | VString string
  | VSlice "go_value list"
  | VMap "(string \<times> go_value) list"
  | VChan

type_synonym 'a go_map = "(string \<times> 'a) list"

text \<open>The entries of a map in the order encoding/json writes them: sorted by key.\<close>

definition entries :: "'a go_map \<Rightarrow> (string \<times> 'a) list" where
  "entries m = sort_key fst (AList.clearjunk m)"

definition len_map :: "'a go_map option \<Rightarrow> nat" where
  "len_map m = (case m of None \<Rightarrow> 0 | Some al \<Rightarrow> length (AList.clearjunk al))"

fun collect :: "(error + 'a) list \<Rightarrow> error + 'a list" where
  "collect [] = Inr []"
| "collect (Inl e # rs) = Inl e"
| "collect (Inr x # rs) = (case collect rs of Inl e \<Rightarrow> Inl e | Inr xs \<Rightarrow> Inr (x # xs))"

text \<open>A member of an object, written from an entry of a map.\<close>

fun object_member :: "string \<times> (error + 'a) \<Rightarrow> error + (string \<times> 'a)" where
  "object_member (k, Inl e) = Inl e"
| "object_member (k, Inr x) = Inr (coerceUTF8 k, x)"

fun json_Marshal :: "go_value \<Rightarrow> error + JSON" where
  "json_Marshal VNil = Inr JNull"
| "json_Marshal (VBool b) = Inr (JBool b)"
| "json_Marshal (VInt i) = Inr (JNumber i)"
| "json_Marshal (VString s) = Inr (JString s)"
| "json_Marshal (VSlice xs) =
     (case collect (map json_Marshal xs) of Inl e \<Rightarrow> Inl e | Inr js \<Rightarrow> Inr (JArray js))"
| "json_Marshal (VMap m) =
     (case collect (map object_member (entries (map (\<lambda>p. (fst p, json_Marshal (snd p))) m))) of
        Inl e \<Rightarrow> Inl e
      | Inr kvs \<Rightarrow> Inr (JObject kvs))"
| "json_Marshal VChan = Inl (Opaque ''json: unsupported type: chan int'')"

text \<open>A field of type \<^verbatim>\<open>map[string]interface{}\<close>: the \<^verbatim>\<open>nil\<close> map is written as \<^verbatim>\<open>null\<close>.\<close>

definition json_Marshal_map :: "go_value go_map option \<Rightarrow> error + JSON" where
  "json_Marshal_map m = (case m of None \<Rightarrow> Inr JNull | Some al \<Rightarrow> json_Marshal (VMap al))"

subsection \<open>The data of the package\<close>

text \<open>
  An \<^verbatim>\<open>io.Reader\<close> is modelled by what reading it to the end gives: its bytes, or the bytes
  read before an error and that error. That a reader is used up by reading is not modelled.
\<close>

datatype reader = Reader string | ErrReader string error

fun io_Copy :: "reader \<Rightarrow> error + string" where
  "io_Copy (Reader bytes) = Inr bytes"
| "io_Copy (ErrReader bytes err) = Inl err"

record File =
  Field :: string
  Name :: string
  R :: reader

text \<open>The content of a multipart part: text, or the JSON text of a document.\<close>

datatype payload = Text string | Doc JSON

datatype part = Part (name: string) (filename: "string option") (content: payload)

text \<open>A \<^verbatim>\<open>bytes.Buffer\<close> holding a request body, by what was written to it.\<close>

datatype buffer = Empty | JSONBody JSON | Multipart string "part list"

type_synonym header = "(string \<times> string list) list"

record Request =
  q :: string
  vars :: "go_value go_map option"
  files :: "File list"
  Header :: header
  body :: buffer
  contentType :: string

text \<open>
  A \<^verbatim>\<open>context.Context\<close> by the value of \<^verbatim>\<open>ctx.Err()\<close> when \<^verbatim>\<open>Run\<close> looks at it: the channel
  \<^verbatim>\<open>ctx.Done()\<close> is closed exactly when that value is not \<^verbatim>\<open>nil\<close>.
\<close>

datatype go_context = Context (Err: "error option")

record http_request =
  Method :: string
  URL :: string
  Close :: bool
  HTTPHeader :: header
  Body :: buffer
  Ctx :: go_context

record http_response =
  StatusCode :: int
  ResBody :: reader

text \<open>The method \<^verbatim>\<open>Do\<close> of an \<^verbatim>\<open>http.Client\<close>.\<close>

type_synonym http_client = "http_request \<Rightarrow> error + http_response"

record Client =
  endpoint :: string
  httpClient :: "http_client option"
  useMultipartForm :: bool
  useMultipartRequestSpec :: bool
  closeReq :: bool

record graphResponse =
  Data :: "JSON option"
  Errors :: "graphErr list"

text \<open>
  The behaviour of the standard library that the file relies on and cannot see into.
  \<open>json_Decode L bytes resp\<close> is \<^verbatim>\<open>json.NewDecoder(&buf).Decode(&gr)\<close> for a buffer
  holding \<open>bytes\<close> and \<^verbatim>\<open>gr\<close> pointing to a \<^verbatim>\<open>graphResponse\<close> whose \<^verbatim>\<open>Data\<close> is the caller's
  target \<open>resp\<close>: an error, or the value of \<^verbatim>\<open>gr\<close> afterwards, where \<open>None\<close> is the
  \<^verbatim>\<open>nil\<close> pointer that decoding the text \<^verbatim>\<open>null\<close> leaves in \<^verbatim>\<open>gr\<close>.
\<close>

record 't library =
  DefaultClient :: http_client
  RandomBoundary :: string
  url_Parse :: "string \<Rightarrow> error option"
  CanonicalMIMEHeaderKey :: "string \<Rightarrow> string"
  json_Decode :: "string \<Rightarrow> 't \<Rightarrow> error + graphResponse option"

definition StatusOK :: int where
  "StatusOK = 200"

subsection \<open>Requests\<close>

definition NewRequest :: "string \<Rightarrow> Request" where
  "NewRequest query =
     \<lparr>q = query, vars = None, files = [], Header = [], body = Empty, contentType = []\<rparr>"

definition Var :: "string \<Rightarrow> go_value \<Rightarrow> Request \<Rightarrow> Request" where
  "Var key val req =
     (let m = (case vars req of None \<Rightarrow> [] | Some al \<Rightarrow> al)
      in req\<lparr>vars := Some (AList.update key val m)\<rparr>)"

definition Vars :: "Request \<Rightarrow> go_value go_map option" where
  "Vars req = vars req"

definition Files :: "Request \<Rightarrow> File list" where
  "Files req = files req"

definition Query :: "Request \<Rightarrow> string" where
  "Query req = q req"

definition File :: "string \<Rightarrow> string \<Rightarrow> reader \<Rightarrow> Request \<Rightarrow> Request" where
  "File fieldname fname r req =
     req\<lparr>files := files req @ [\<lparr>Field = fieldname, Name = fname, R = r\<rparr>]\<rparr>"

subsection \<open>Clients and their options\<close>

text \<open>
  A \<^verbatim>\<open>ClientOption\<close> is a function on the client. The fields of a client are not exported,
  so the options that change them are the four the file defines.
\<close>

datatype ClientOption =
    WithHTTPClient "http_client option"
  | UseMultipartForm
  | UseMultipartRequestSpec
  | ImmediatelyCloseReqBody

fun optionFunc :: "ClientOption \<Rightarrow> Client \<Rightarrow> Client" where
  "optionFunc (WithHTTPClient h) client = client\<lparr>httpClient := h\<rparr>"
| "optionFunc UseMultipartForm client = client\<lparr>useMultipartForm := True\<rparr>"
| "optionFunc UseMultipartRequestSpec client = client\<lparr>useMultipartRequestSpec := True\<rparr>"
| "optionFunc ImmediatelyCloseReqBody client = client\<lparr>closeReq := True\<rparr>"

definition NewClient :: "'t library \<Rightarrow> string \<Rightarrow> ClientOption list \<Rightarrow> Client" where
  "NewClient L ep opts =
     (let c = fold optionFunc opts
                \<lparr>endpoint = ep, httpClient = None, useMultipartForm = False,
                 useMultipartRequestSpec = False, closeReq = False\<rparr>
      in if httpClient c = None then c\<lparr>httpClient := Some (DefaultClient L)\<rparr> else c)"

subsection \<open>mime/multipart and net/http\<close>

text \<open>
  A \<^verbatim>\<open>multipart.Writer\<close> over a buffer: its boundary and the parts written so far. Its
  operations return an error in Go; on a \<^verbatim>\<open>bytes.Buffer\<close> none of them fails, and the
  model keeps the result type so that every check of the source has its branch.
\<close>

record Writer =
  boundary :: string
  parts :: "part list"

definition NewWriter :: "'t library \<Rightarrow> Writer" where
  "NewWriter L = \<lparr>boundary = RandomBoundary L, parts = []\<rparr>"

definition CreateFormField :: "string \<Rightarrow> Writer \<Rightarrow> error + Writer" where
  "CreateFormField fieldname w = Inr (w\<lparr>parts := parts w @ [Part fieldname None (Text [])]\<rparr>)"

definition CreateFormFile :: "string \<Rightarrow> string \<Rightarrow> Writer \<Rightarrow> error + Writer" where
  "CreateFormFile fieldname fname w =
     Inr (w\<lparr>parts := parts w @ [Part fieldname (Some fname) (Text [])]\<rparr>)"

text \<open>Writing to the part created last; every part of this file is written once.\<close>

definition Write :: "payload \<Rightarrow> Writer \<Rightarrow> Writer" where
  "Write p w =
     (case rev (parts w) of
        [] \<Rightarrow> w
      | Part n f c # ps \<Rightarrow> w\<lparr>parts := rev ps @ [Part n f p]\<rparr>)"

text \<open>\<^verbatim>\<open>WriteField\<close> creates a form field and writes the given text to it.\<close>

definition WriteField :: "string \<Rightarrow> payload \<Rightarrow> Writer \<Rightarrow> error + Writer" where
  "WriteField fieldname val w =
     (case CreateFormField fieldname w of
        Inl err \<Rightarrow> Inl err
      | Inr w' \<Rightarrow> Inr (Write val w'))"

definition Close_Writer :: "Writer \<Rightarrow> error + Writer" where
  "Close_Writer w = Inr w"

definition FormDataContentType :: "Writer \<Rightarrow> string" where
  "FormDataContentType w = ''multipart/form-data; boundary='' @ boundary w"

definition http_NewRequest :: "'t library \<Rightarrow> string \<Rightarrow> string \<Rightarrow> buffer \<Rightarrow> error + http_request" where
  "http_NewRequest L method url b =
     (case url_Parse L url of
        Some err \<Rightarrow> Inl err
      | None \<Rightarrow> Inr \<lparr>Method = method, URL = url, Close = False, HTTPHeader = [],
                     Body = b, Ctx = Context None\<rparr>)"

definition Header_Set :: "'t library \<Rightarrow> string \<Rightarrow> string \<Rightarrow> header \<Rightarrow> header" where
  "Header_Set L key val h = AList.update (CanonicalMIMEHeaderKey L key) [val] h"

definition Header_Add :: "'t library \<Rightarrow> string \<Rightarrow> string \<Rightarrow> header \<Rightarrow> header" where
  "Header_Add L key val h =
     (let k = CanonicalMIMEHeaderKey L key
      in AList.update k ((case map_of h k of None \<Rightarrow> [] | Some vs \<Rightarrow> vs) @ [val]) h)"

subsection \<open>Sending and decoding: makeRequest\<close>

text \<open>
  \<^verbatim>\<open>makeRequest\<close> is given in three pieces, in the order of its body: building the
  \<^verbatim>\<open>http.Request\<close>, handing it to \<^verbatim>\<open>c.httpClient.Do\<close>, and reading and decoding the
  response. The entries of \<^verbatim>\<open>req.Header\<close> are taken in the order the \<^verbatim>\<open>range\<close> loop
  visits them.
\<close>

definition buildRequest ::
  "'t library \<Rightarrow> Client \<Rightarrow> go_context \<Rightarrow> Request \<Rightarrow> error + http_request" where
  "buildRequest L c ctx req =
     (case http_NewRequest L ''POST'' (endpoint c) (body req) of
        Inl err \<Rightarrow> Inl err
      | Inr r0 \<Rightarrow>
          let r1 = r0\<lparr>Close := closeReq c\<rparr>;
              r2 = r1\<lparr>HTTPHeader :=
                        Header_Set L ''Content-Type'' (contentType req) (HTTPHeader r1)\<rparr>;
              r3 = r2\<lparr>HTTPHeader :=
                        Header_Set L ''Accept'' ''application/json; charset=utf-8''
                          (HTTPHeader r2)\<rparr>;
              r4 = fold (\<lambda>(key, vals) r.
                           fold (\<lambda>val r'. r'\<lparr>HTTPHeader := Header_Add L key val (HTTPHeader r')\<rparr>)
                             vals r)
                     (Header req) r3
          in Inr (r4\<lparr>Ctx := ctx\<rparr>))"

text \<open>
  From reading the response body to the end of \<^verbatim>\<open>makeRequest\<close>. Decoding the text
  \<^verbatim>\<open>null\<close> leaves \<^verbatim>\<open>gr\<close> a \<^verbatim>\<open>nil\<close> pointer, and reading \<^verbatim>\<open>gr.Errors\<close> through it panics.
\<close>

definition decodeResponse :: "'t library \<Rightarrow> 't \<Rightarrow> http_response \<Rightarrow> outcome" where
  "decodeResponse L resp res =
     (case io_Copy (ResBody res) of
        Inl err \<Rightarrow> Returns (Some (Wrap err ''failed to read response body''))
      | Inr buf \<Rightarrow>
          (case json_Decode L buf resp of
             Inl err \<Rightarrow>
               if StatusCode res \<noteq> StatusOK
               then Returns (Some (Errorf (''graphql: server returned a non-200 status code: ''
                                             @ Itoa (StatusCode res))))
               else Returns (Some (Wrap err ''failed to decode response''))
           | Inr None \<Rightarrow> Panics
           | Inr (Some gr) \<Rightarrow>
               if length (Errors gr) > 0
               then Returns (Some (GraphErr (Errors gr ! 0)))
               else Returns None))"

text \<open>
  The result is what \<^verbatim>\<open>makeRequest\<close> returns and the requests it handed to
  \<^verbatim>\<open>c.httpClient.Do\<close>. Calling \<^verbatim>\<open>Do\<close> on a client without \<^verbatim>\<open>httpClient\<close> panics.
\<close>

definition makeRequest ::
  "'t library \<Rightarrow> Client \<Rightarrow> go_context \<Rightarrow> Request \<Rightarrow> 't \<Rightarrow> outcome \<times> http_request list" where
  "makeRequest L c ctx req resp =
     (case buildRequest L c ctx req of
        Inl err \<Rightarrow> (Returns (Some err), [])
      | Inr r \<Rightarrow>
          (case httpClient c of
             None \<Rightarrow> (Panics, [])
           | Some do \<Rightarrow>
               (case do r of
                  Inl err \<Rightarrow> (Returns (Some err), [r])
                | Inr res \<Rightarrow> (decodeResponse L resp res, [r]))))"

subsection \<open>The three encoders\<close>

text \<open>
  Each encoder gives back what it returns, the request with the staged \<^verbatim>\<open>body\<close> and
  \<^verbatim>\<open>contentType\<close>, and the requests handed to the HTTP client.
\<close>

type_synonym run_result = "outcome \<times> Request \<times> http_request list"

definition runWithJSON ::
  "'t library \<Rightarrow> Client \<Rightarrow> go_context \<Rightarrow> Request \<Rightarrow> 't \<Rightarrow> run_result" where
  "runWithJSON L c ctx req resp =
     (case json_Marshal_map (vars req) of
        Inl err \<Rightarrow> (Returns (Some (Wrap err ''failed to encode request body'')), req, [])
      | Inr variables \<Rightarrow>
          let requestBody = JSONBody (JObject [(''query'', JString (q req)),
                                               (''variables'', variables)]);
              req' = req\<lparr>body := requestBody,
                         contentType := ''application/json; charset=utf-8''\<rparr>
          in (case makeRequest L c ctx req' resp of (out, sent) \<Rightarrow> (out, req', sent)))"

text \<open>The loop over \<^verbatim>\<open>req.files\<close> that both multipart encoders run.\<close>

fun addFiles :: "File list \<Rightarrow> Writer \<Rightarrow> error + Writer" where
  "addFiles [] w = Inr w"
| "addFiles (file # rest) w =
     (case CreateFormFile (Field file) (Name file) w of
        Inl err \<Rightarrow> Inl (Wrap err ''failed to create form file'')
      | Inr w' \<Rightarrow>
          (case io_Copy (R file) of
             Inl err \<Rightarrow> Inl (Wrap err ''failed to copy file content'')
           | Inr bytes \<Rightarrow> addFiles rest (Write (Text bytes) w')))"

text \<open>
  The part of \<^verbatim>\<open>runWithPostFields\<close> that writes the \<^verbatim>\<open>variables\<close> field when there are
  variables.
\<close>

definition writeVariables :: "go_value go_map option \<Rightarrow> Writer \<Rightarrow> error + Writer" where
  "writeVariables vs w =
     (if len_map vs > 0
      then (case CreateFormField ''variables'' w of
              Inl err \<Rightarrow> Inl (Wrap err ''failed to create variables field'')
            | Inr w' \<Rightarrow>
                (case json_Marshal_map vs of
                   Inl err \<Rightarrow> Inl (Wrap err ''failed to encode variables'')
                 | Inr doc \<Rightarrow> Inr (Write (Doc doc) w')))
      else Inr w)"

definition runWithPostFields ::
  "'t library \<Rightarrow> Client \<Rightarrow> go_context \<Rightarrow> Request \<Rightarrow> 't \<Rightarrow> run_result" where
  "runWithPostFields L c ctx req resp =
     (case WriteField ''query'' (Text (q req)) (NewWriter L) of
        Inl err \<Rightarrow> (Returns (Some (Wrap err ''failed to write query field'')), req, [])
      | Inr w1 \<Rightarrow>
          (case writeVariables (vars req) w1 of
             Inl err \<Rightarrow> (Returns (Some err), req, [])
           | Inr w2 \<Rightarrow>
               (case addFiles (files req) w2 of
                  Inl err \<Rightarrow> (Returns (Some err), req, [])
                | Inr w3 \<Rightarrow>
                    (case Close_Writer w3 of
                       Inl err \<Rightarrow> (Returns (Some (Wrap err ''failed to close writer'')), req, [])
                     | Inr writer \<Rightarrow>
                         let req' = req\<lparr>body := Multipart (boundary writer) (parts writer),
                                         contentType := FormDataContentType writer\<rparr>
                         in (case makeRequest L c ctx req' resp of
                               (out, sent) \<Rightarrow> (out, req', sent))))))"

subsection \<open>The multipart request specification\<close>

datatype variables = Variables (Variables_Files: "go_value list") | VariablesEmpty

record operations =
  Operations_Query :: string
  Operations_Variables :: variables

record multipartRequestSpecQuery =
  Operations :: operations
  Map :: "string list go_map"

definition fillMultipartRequestSpecQuery :: "Request \<Rightarrow> multipartRequestSpecQuery" where
  "fillMultipartRequestSpecQuery req =
     (let (fs, m) =
            fold (\<lambda>(index, file) (fs, m).
                    (fs @ [VNil],
                     AList.update (Field file) [''variables.files.'' @ Itoa (int index)] m))
              (enumerate 0 (Files req)) ([], [])
      in \<lparr>Operations =
            \<lparr>Operations_Query = Query req,
             Operations_Variables =
               (if length (Files req) > 0 then Variables fs else VariablesEmpty)\<rparr>,
          Map = m\<rparr>)"

text \<open>
  \<^verbatim>\<open>json.Marshal\<close> on the two fields. A \<^verbatim>\<open>Variables\<close> whose slice was never appended to
  holds the \<^verbatim>\<open>nil\<close> slice, which is written as \<^verbatim>\<open>null\<close>. The entries of \<^verbatim>\<open>Map\<close> are
  written in the order of their keys in the map, each key as the encoder writes it.
\<close>

definition json_Marshal_variables :: "variables \<Rightarrow> error + JSON" where
  "json_Marshal_variables v =
     (case v of
        VariablesEmpty \<Rightarrow> Inr (JObject [])
      | Variables fs \<Rightarrow>
          (case (if fs = [] then Inr JNull else json_Marshal (VSlice fs)) of
             Inl err \<Rightarrow> Inl err
           | Inr j \<Rightarrow> Inr (JObject [(''files'', j)])))"

definition json_Marshal_operations :: "operations \<Rightarrow> error + JSON" where
  "json_Marshal_operations ops =
     (case json_Marshal_variables (Operations_Variables ops) of
        Inl err \<Rightarrow> Inl err
      | Inr v \<Rightarrow> Inr (JObject [(''query'', JString (Operations_Query ops)), (''variables'', v)]))"

definition json_Marshal_Map :: "string list go_map \<Rightarrow> error + JSON" where
  "json_Marshal_Map m =
     Inr (JObject (map (\<lambda>(k, ps). (coerceUTF8 k, JArray (map JString ps))) (entries m)))"

definition runMultipartRequestSpec ::
  "'t library \<Rightarrow> Client \<Rightarrow> go_context \<Rightarrow> Request \<Rightarrow> 't \<Rightarrow> run_result" where
  "runMultipartRequestSpec L c ctx req resp =
     (if len_map (vars req) > 0
      then (Returns (Some (New (''variables not supported due to the multipart request spec ''
              @ ''https://github.com/jaydenseric/graphql-multipart-request-spec/issues/22''))),
            req, [])
      else
        let query = fillMultipartRequestSpecQuery req
        in (case json_Marshal_operations (Operations query) of
              Inl err \<Rightarrow> (Returns (Some (Wrap err ''failed to marshal operations'')), req, [])
            | Inr ops \<Rightarrow>
          (case json_Marshal_Map (Map query) of
              Inl err \<Rightarrow> (Returns (Some (Wrap err ''failed to marshal map'')), req, [])
            | Inr maps \<Rightarrow>
          (case WriteField ''operations'' (Doc ops) (NewWriter L) of
              Inl err \<Rightarrow> (Returns (Some (Wrap err ''failed to write operations field'')), req, [])
            | Inr w1 \<Rightarrow>
          (case WriteField ''map'' (Doc maps) w1 of
              Inl err \<Rightarrow> (Returns (Some (Wrap err ''failed to write map field'')), req, [])
            | Inr w2 \<Rightarrow>
          (case addFiles (files req) w2 of
              Inl err \<Rightarrow> (Returns (Some err), req, [])
            | Inr w3 \<Rightarrow>
          (case Close_Writer w3 of
              Inl err \<Rightarrow> (Returns (Some (Wrap err ''failed to close writer'')), req, [])
            | Inr writer \<Rightarrow>
                let req' = req\<lparr>body := Multipart (boundary writer) (parts writer),
                                contentType := FormDataContentType writer\<rparr>
                in (case makeRequest L c ctx req' resp of
                      (out, sent) \<Rightarrow> (out, req', sent)))))))))"

subsection \<open>Run\<close>

definition Run :: "'t library \<Rightarrow> Client \<Rightarrow> go_context \<Rightarrow> Request \<Rightarrow> 't \<Rightarrow> run_result" where
  "Run L c ctx req resp =
     (case Err ctx of
        Some err \<Rightarrow> (Returns (Some err), req, [])
      | None \<Rightarrow>
          if length (files req) > 0 \<and> \<not> (useMultipartForm c \<or> useMultipartRequestSpec c)
          then (Returns (Some (New ''cannot send files with PostFields option'')), req, [])
          else if useMultipartForm c then runWithPostFields L c ctx req resp
          else if useMultipartRequestSpec c then runMultipartRequestSpec L c ctx req resp
          else runWithJSON L c ctx req resp)"

subsection \<open>Example inputs\<close>

text \<open>
  A server that answers every request with a fixed status and body, a decoder that knows
  a few response bodies, and a library built from them.
\<close>

definition example_server :: "int \<Rightarrow> string \<Rightarrow> http_client" where
  "example_server status bytes r = Inr \<lparr>StatusCode = status, ResBody = Reader bytes\<rparr>"

definition example_Decode :: "string \<Rightarrow> unit \<Rightarrow> error + graphResponse option" where
  \<open>example_Decode bytes resp =
     (if bytes = ''{"data":{"hero":{"name":"R2-D2"}}}''
      then Inr (Some \<lparr>Data = Some (JObject [(''hero'', JObject [(''name'', JString ''R2-D2'')])]),
                      Errors = []\<rparr>)
      else if bytes = ''{"data":{"hero":null},"errors":[{"message":"boom"},{"message":"late"}]}''
      then Inr (Some \<lparr>Data = Some (JObject [(''hero'', JNull)]),
                      Errors = [\<lparr>Message = ''boom''\<rparr>, \<lparr>Message = ''late''\<rparr>]\<rparr>)
      else if bytes = ''null'' then Inr None
      else Inl (Opaque ''invalid character''))\<close>

definition example_library :: "http_client \<Rightarrow> unit library" where
  "example_library server =
     \<lparr>DefaultClient = server, RandomBoundary = ''4f178ca388ca'',
      url_Parse = (\<lambda>u. None), CanonicalMIMEHeaderKey = (\<lambda>k. k),
      json_Decode = example_Decode\<rparr>"

subsection \<open>The success statuses of HTTP\<close>

text \<open>
  The code takes one status for success, \<open>StatusOK\<close>. In HTTP the success statuses are
  the statuses from 200 to 299; this predicate is used only to compare the two.
\<close>

definition http_success_status :: "int \<Rightarrow> bool" where
  "http_success_status status = (200 \<le> status \<and> status \<le> 299)"

section \<open>Properties\<close>

subsection \<open>Auxiliary facts\<close>

lemmas example_defs =
  example_library_def example_server_def example_Decode_def NewClient_def NewRequest_def
  Var_def File_def

lemmas run_defs =
  Run_def runWithJSON_def runWithPostFields_def runMultipartRequestSpec_def makeRequest_def
  buildRequest_def decodeResponse_def http_NewRequest_def Header_Set_def Header_Add_def
  json_Marshal_map_def StatusOK_def Itoa_def digit_def Let_def

lemmas encoder_defs =
  WriteField_def CreateFormField_def CreateFormFile_def Write_def NewWriter_def Close_Writer_def
  FormDataContentType_def writeVariables_def len_map_def entries_def
  fillMultipartRequestSpecQuery_def Files_def Query_def json_Marshal_operations_def
  json_Marshal_variables_def json_Marshal_Map_def between_def accept_def


lemma len_map_pos: "len_map (Some al) > 0 \<longleftrightarrow> al \<noteq> []"
  by (cases al) (simp_all add: len_map_def)

text \<open>The options decide the two flags of a new client.\<close>

lemma fold_optionFunc_useMultipartForm:
  "useMultipartForm (fold optionFunc opts c) = (useMultipartForm c \<or> UseMultipartForm \<in> set opts)"
proof (induction opts arbitrary: c)
  case Nil
  then show ?case by simp
next
  case (Cons o1 opts)
  then show ?case by (cases o1) auto
qed

lemma fold_optionFunc_useMultipartRequestSpec:
  "useMultipartRequestSpec (fold optionFunc opts c) =
     (useMultipartRequestSpec c \<or> UseMultipartRequestSpec \<in> set opts)"
proof (induction opts arbitrary: c)
  case Nil
  then show ?case by simp
next
  case (Cons o1 opts)
  then show ?case by (cases o1) auto
qed

lemma NewClient_useMultipartForm:
  "useMultipartForm (NewClient L ep opts) = (UseMultipartForm \<in> set opts)"
  by (simp add: NewClient_def Let_def fold_optionFunc_useMultipartForm)

lemma NewClient_useMultipartRequestSpec:
  "useMultipartRequestSpec (NewClient L ep opts) = (UseMultipartRequestSpec \<in> set opts)"
  by (simp add: NewClient_def Let_def fold_optionFunc_useMultipartRequestSpec)

text \<open>
  A call that handed a request to the HTTP client went through \<^verbatim>\<open>makeRequest\<close> on the
  staged request, and its result is decided by the answer to that request.
\<close>

lemma makeRequest_sent:
  assumes "makeRequest L c ctx req resp = (out, [r])" and "httpClient c = Some do"
  shows "out = (case do r of Inl err \<Rightarrow> Returns (Some err)
                | Inr res \<Rightarrow> decodeResponse L resp res)"
  using assms unfolding makeRequest_def
  by (auto split: sum.splits)

lemma runWithJSON_sent:
  "snd (snd (runWithJSON L c ctx req resp)) \<noteq> [] \<Longrightarrow>
     makeRequest L c ctx (fst (snd (runWithJSON L c ctx req resp))) resp =
       (fst (runWithJSON L c ctx req resp), snd (snd (runWithJSON L c ctx req resp)))"
  unfolding runWithJSON_def Let_def
  by (auto split: sum.splits prod.splits)

lemma runWithPostFields_sent:
  "snd (snd (runWithPostFields L c ctx req resp)) \<noteq> [] \<Longrightarrow>
     makeRequest L c ctx (fst (snd (runWithPostFields L c ctx req resp))) resp =
       (fst (runWithPostFields L c ctx req resp),
        snd (snd (runWithPostFields L c ctx req resp)))"
  unfolding runWithPostFields_def Let_def
  by (auto split: sum.splits prod.splits)

lemma runMultipartRequestSpec_sent:
  "snd (snd (runMultipartRequestSpec L c ctx req resp)) \<noteq> [] \<Longrightarrow>
     makeRequest L c ctx (fst (snd (runMultipartRequestSpec L c ctx req resp))) resp =
       (fst (runMultipartRequestSpec L c ctx req resp),
        snd (snd (runMultipartRequestSpec L c ctx req resp)))"
  unfolding runMultipartRequestSpec_def Let_def
  by (auto split: sum.splits prod.splits if_splits)

lemma Run_sent:
  "snd (snd (Run L c ctx req resp)) \<noteq> [] \<Longrightarrow>
     makeRequest L c ctx (fst (snd (Run L c ctx req resp))) resp =
       (fst (Run L c ctx req resp), snd (snd (Run L c ctx req resp)))"
  unfolding Run_def
  by (auto split: option.splits if_splits
      simp: runWithJSON_sent runWithPostFields_sent runMultipartRequestSpec_sent)

text \<open>The request on the wire carries the staged body.\<close>

lemma fold_Header_Add_Body:
  "Body (fold (\<lambda>val r'. r'\<lparr>HTTPHeader := Header_Add L key val (HTTPHeader r')\<rparr>) vals r) = Body r"
  by (induction vals arbitrary: r) simp_all

lemma fold_Header_Body:
  "Body (fold (\<lambda>(key, vals) r.
           fold (\<lambda>val r'. r'\<lparr>HTTPHeader := Header_Add L key val (HTTPHeader r')\<rparr>) vals r)
         hs r) = Body r"
  by (induction hs arbitrary: r) (simp_all add: case_prod_unfold fold_Header_Add_Body)

lemma buildRequest_Body: "buildRequest L c ctx req = Inr r \<Longrightarrow> Body r = body req"
  unfolding buildRequest_def http_NewRequest_def Let_def
  by (auto split: option.splits simp: fold_Header_Body)

lemma makeRequest_Body:
  "r \<in> set (snd (makeRequest L c ctx req resp)) \<Longrightarrow> Body r = body req"
  unfolding makeRequest_def
  by (auto split: sum.splits option.splits dest: buildRequest_Body)

text \<open>The file loop, when every file can be read.\<close>

lemma Write_last:
  "Write p (w\<lparr>parts := ps @ [Part n f c]\<rparr>) = w\<lparr>parts := ps @ [Part n f p]\<rparr>"
  by (simp add: Write_def)

lemma addFiles_readable:
  "map (\<lambda>f. io_Copy (R f)) fs = map Inr contents \<Longrightarrow>
   addFiles fs w =
     Inr (w\<lparr>parts := parts w @ map2 (\<lambda>f b. Part (Field f) (Some (Name f)) (Text b)) fs contents\<rparr>)"
proof (induction fs arbitrary: w contents)
  case Nil
  then show ?case by simp
next
  case (Cons f fs)
  then obtain b bs where c: "contents = b # bs" by (cases contents) auto
  with Cons.prems have b: "io_Copy (R f) = Inr b"
    and bs: "map (\<lambda>f. io_Copy (R f)) fs = map Inr bs" by auto
  show ?case
    by (simp add: c b CreateFormFile_def Write_last Cons.IH [OF bs])
qed

text \<open>The loop of \<^verbatim>\<open>fillMultipartRequestSpecQuery\<close>.\<close>

lemma fill_fold:
  "fold (\<lambda>(index, file) (fs, m).
           (fs @ [VNil], AList.update (Field file) [''variables.files.'' @ Itoa (int index)] m))
     (enumerate n xs) (acc, m0) =
   (acc @ replicate (length xs) VNil,
    fold (\<lambda>(index, file). AList.update (Field file) [''variables.files.'' @ Itoa (int index)])
      (enumerate n xs) m0)"
  by (induction xs arbitrary: n acc m0) (simp_all add: replicate_app_Cons_same)

lemma update_fresh: "k \<notin> fst ` set al \<Longrightarrow> AList.update k v al = al @ [(k, v)]"
  by (induction al) auto

lemma fold_update_distinct:
  "distinct (map Field xs) \<Longrightarrow> Field ` set xs \<inter> fst ` set m0 = {} \<Longrightarrow>
   fold (\<lambda>(index, file). AList.update (Field file) [''variables.files.'' @ Itoa (int index)])
      (enumerate n xs) m0 =
   m0 @ map (\<lambda>(index, file). (Field file, [''variables.files.'' @ Itoa (int index)]))
          (enumerate n xs)"
proof (induction xs arbitrary: n m0)
  case Nil
  then show ?case by simp
next
  case (Cons x xs)
  from Cons.prems have fresh: "Field x \<notin> fst ` set m0" by auto
  from Cons.prems have "distinct (map Field xs)"
    and "Field ` set xs \<inter> fst ` set (m0 @ [(Field x, [''variables.files.'' @ Itoa (int n)])]) = {}"
    by auto
  from Cons.IH [OF this] fresh show ?case
    by (simp add: update_fresh)
qed

lemma map_Field_enumerate: "map (\<lambda>x. Field (snd x)) (enumerate n xs) = map Field xs"
  by (induction xs arbitrary: n) simp_all

lemma fill_Map_distinct:
  assumes "distinct (map Field (files req))"
  shows "Map (fillMultipartRequestSpecQuery req) =
           map (\<lambda>(index, file). (Field file, [''variables.files.'' @ Itoa (int index)]))
             (enumerate 0 (files req))"
  unfolding fillMultipartRequestSpecQuery_def Files_def fill_fold
  using fold_update_distinct [OF assms, of "[]" 0]
  by simp

lemma fill_Operations:
  "Operations (fillMultipartRequestSpecQuery req) =
     \<lparr>Operations_Query = q req,
      Operations_Variables =
        (if length (files req) > 0 then Variables (replicate (length (files req)) VNil)
         else VariablesEmpty)\<rparr>"
  unfolding fillMultipartRequestSpecQuery_def Files_def Query_def fill_fold
  by simp

lemma collect_replicate: "collect (replicate n (Inr x)) = Inr (replicate n x)"
  by (induction n) simp_all

lemma distinct_map_sort_key:
  "distinct (map f (sort_key fst m)) = distinct (map f m)"
  by (simp add: distinct_map)

lemma entries_distinct: "distinct (map fst m) \<Longrightarrow> entries m = sort_key fst m"
  by (simp add: entries_def distinct_clearjunk_id)

text \<open>
  The body that \<^verbatim>\<open>runMultipartRequestSpec\<close> stages for a request without variables whose
  files can be read: the two documents of \<^verbatim>\<open>fillMultipartRequestSpecQuery\<close> as the fields
  \<^verbatim>\<open>operations\<close> and \<^verbatim>\<open>map\<close>, then the files.
\<close>

lemma runMultipartRequestSpec_body:
  assumes "len_map (vars req) = 0"
    and "json_Marshal_operations (Operations (fillMultipartRequestSpecQuery req)) = Inr ops"
    and "json_Marshal_Map (Map (fillMultipartRequestSpecQuery req)) = Inr maps"
    and "map (\<lambda>f. io_Copy (R f)) (files req) = map Inr contents"
  shows "fst (snd (runMultipartRequestSpec L c ctx req resp)) =
           req\<lparr>body := Multipart (RandomBoundary L)
                  (Part ''operations'' None (Doc ops) # Part ''map'' None (Doc maps) #
                   map2 (\<lambda>f b. Part (Field f) (Some (Name f)) (Text b)) (files req) contents),
               contentType := ''multipart/form-data; boundary='' @ RandomBoundary L\<rparr>"
proof -
  have w: "WriteField ''operations'' (Doc ops) (NewWriter L) =
      Inr \<lparr>boundary = RandomBoundary L, parts = [Part ''operations'' None (Doc ops)]\<rparr>"
    "WriteField ''map'' (Doc maps)
        \<lparr>boundary = RandomBoundary L, parts = [Part ''operations'' None (Doc ops)]\<rparr> =
      Inr \<lparr>boundary = RandomBoundary L,
           parts = [Part ''operations'' None (Doc ops), Part ''map'' None (Doc maps)]\<rparr>"
    by (simp_all add: WriteField_def CreateFormField_def NewWriter_def Write_def)
  show ?thesis
    using assms(1-3)
    by (simp add: runMultipartRequestSpec_def w addFiles_readable [OF assms(4)] Close_Writer_def
        FormDataContentType_def Let_def split: prod.splits)
qed

subsection \<open>Variables of a JSON request (C1)\<close>

text \<open>
  Claim C1, as the code has it. A request whose variable mapping was never written or is
  empty, sent in JSON mode (neither multipart option, a context that is not done, no
  files), stages a body that is one JSON object with the field \<^verbatim>\<open>query\<close> holding the query
  string and the field \<^verbatim>\<open>variables\<close>, which is always present: it is \<^verbatim>\<open>null\<close> when the
  mapping was never written and the empty object when the mapping exists and is empty.
  The content type is \<^verbatim>\<open>application/json; charset=utf-8\<close>, and every request handed to
  the HTTP client carries that body.
\<close>

theorem Run_JSON_no_variables:
  assumes "vars req = None \<or> vars req = Some []"
    and "\<not> useMultipartForm c" and "\<not> useMultipartRequestSpec c"
    and "Err ctx = None" and "files req = []"
  shows "fst (snd (Run L c ctx req resp)) =
           req\<lparr>body := JSONBody (JObject [(''query'', JString (q req)),
                      (''variables'', if vars req = None then JNull else JObject [])]),
               contentType := ''application/json; charset=utf-8''\<rparr> \<and>
         (\<forall>r \<in> set (snd (snd (Run L c ctx req resp))).
            Body r = JSONBody (JObject [(''query'', JString (q req)),
                      (''variables'', if vars req = None then JNull else JObject [])]))"
proof -
  let ?B = "JSONBody (JObject [(''query'', JString (q req)),
                      (''variables'', if vars req = None then JNull else JObject [])])"
  let ?req' = "req\<lparr>body := ?B, contentType := ''application/json; charset=utf-8''\<rparr>"
  from assms(1) have m: "json_Marshal_map (vars req) =
      Inr (if vars req = None then JNull else JObject [])"
    by (auto simp: json_Marshal_map_def entries_def)
  have run: "Run L c ctx req resp =
      (fst (makeRequest L c ctx ?req' resp), ?req', snd (makeRequest L c ctx ?req' resp))"
    using assms(2-5) m
    by (simp add: Run_def runWithJSON_def Let_def split: prod.splits)
  have "Body r = ?B" if "r \<in> set (snd (makeRequest L c ctx ?req' resp))" for r
    using makeRequest_Body [OF that] by simp
  with run show ?thesis by simp
qed

text \<open>
  At a request with an empty mapping the field is the empty object.
\<close>

theorem Run_JSON_no_variables_witness:
  "body (fst (snd (Run (example_library (example_server 200 ''null''))
                     (NewClient (example_library (example_server 200 ''null''))
                        ''https://example.org/graphql'' [])
                     (Context None) ((NewRequest ''query {}'')\<lparr>vars := Some []\<rparr>) ())))
     = JSONBody (JObject [(''query'', JString ''query {}''), (''variables'', JObject [])]) \<and>
   contentType (fst (snd (Run (example_library (example_server 200 ''null''))
                     (NewClient (example_library (example_server 200 ''null''))
                        ''https://example.org/graphql'' [])
                     (Context None) ((NewRequest ''query {}'')\<lparr>vars := Some []\<rparr>) ())))
     = ''application/json; charset=utf-8''"
  using Run_JSON_no_variables [of "(NewRequest ''query {}'')\<lparr>vars := Some []\<rparr>"
      "NewClient (example_library (example_server 200 ''null'')) ''https://example.org/graphql'' []"
      "Context None" "example_library (example_server 200 ''null'')" "()"]
  by (simp add: example_defs)

text \<open>
  Claim C1 as stated asks for an empty object also when the mapping was never written.
  A request fresh from \<^verbatim>\<open>NewRequest\<close> has the \<^verbatim>\<open>nil\<close> mapping, and its body carries
  \<^verbatim>\<open>"variables":null\<close>.
\<close>

theorem Run_JSON_null_variables_counterexample:
  "vars (NewRequest ''query {}'') = None \<and>
   body (fst (snd (Run (example_library (example_server 200 ''null''))
                     (NewClient (example_library (example_server 200 ''null''))
                        ''https://example.org/graphql'' [])
                     (Context None) (NewRequest ''query {}'') ())))
     = JSONBody (JObject [(''query'', JString ''query {}''), (''variables'', JNull)]) \<and>
   body (fst (snd (Run (example_library (example_server 200 ''null''))
                     (NewClient (example_library (example_server 200 ''null''))
                        ''https://example.org/graphql'' [])
                     (Context None) (NewRequest ''query {}'') ())))
     \<noteq> JSONBody (JObject [(''query'', JString ''query {}''), (''variables'', JObject [])])"
  by (simp add: example_defs run_defs)

subsection \<open>Files in JSON mode (C2)\<close>

text \<open>
  Claim C2, as the code has it. For a request with a non-empty file list and a client with
  neither multipart option, \<^verbatim>\<open>Run\<close> hands no request to the HTTP client and leaves the
  request as it was; it returns the error \<^verbatim>\<open>cannot send files with PostFields option\<close>
  when the context is not done, and the context's error when it is.
\<close>

theorem Run_files_JSON_mode:
  assumes "files req \<noteq> []" and "\<not> useMultipartForm c" and "\<not> useMultipartRequestSpec c"
  shows "Run L c ctx req resp =
           (Returns (Some (case Err ctx of
                             Some err \<Rightarrow> err
                           | None \<Rightarrow> New ''cannot send files with PostFields option'')),
            req, [])"
  using assms by (simp add: Run_def split: option.splits)

theorem Run_files_JSON_mode_witness:
  "Run (example_library (example_server 200 ''null''))
       (NewClient (example_library (example_server 200 ''null''))
          ''https://example.org/graphql'' [])
       (Context None)
       (File ''file'' ''a.txt'' (Reader ''abc'') (NewRequest ''query {}'')) ()
     = (Returns (Some (New ''cannot send files with PostFields option'')),
        File ''file'' ''a.txt'' (Reader ''abc'') (NewRequest ''query {}''), [])"
  using Run_files_JSON_mode [of "File ''file'' ''a.txt'' (Reader ''abc'') (NewRequest ''query {}'')"
      "NewClient (example_library (example_server 200 ''null'')) ''https://example.org/graphql'' []"
      "example_library (example_server 200 ''null'')" "Context None" "()"]
  by (simp add: example_defs)

text \<open>
  Claim C2 as stated promises the precondition error on every call. With a context that
  is already cancelled the call returns the cancellation error instead.
\<close>

theorem Run_files_JSON_mode_counterexample:
  "files (File ''file'' ''a.txt'' (Reader ''abc'') (NewRequest ''query {}'')) \<noteq> [] \<and>
   \<not> useMultipartForm (NewClient (example_library (example_server 200 ''null''))
                          ''https://example.org/graphql'' []) \<and>
   \<not> useMultipartRequestSpec (NewClient (example_library (example_server 200 ''null''))
                          ''https://example.org/graphql'' []) \<and>
   fst (Run (example_library (example_server 200 ''null''))
           (NewClient (example_library (example_server 200 ''null''))
              ''https://example.org/graphql'' [])
           (Context (Some Canceled))
           (File ''file'' ''a.txt'' (Reader ''abc'') (NewRequest ''query {}'')) ())
     = Returns (Some Canceled) \<and>
   Returns (Some Canceled) \<noteq> Returns (Some (New ''cannot send files with PostFields option''))"
  by (simp add: example_defs run_defs)

subsection \<open>Variables in request-spec mode (C3)\<close>

text \<open>
  Claim C3, as the code has it. For a request with at least one variable and a client with
  the request-spec option and without the multipart-form option, \<^verbatim>\<open>Run\<close> hands no request
  to the HTTP client and leaves the request as it was; it returns the error
  \<^verbatim>\<open>variables not supported ...\<close> when the context is not done, and the context's error
  when it is.
\<close>

theorem Run_variables_request_spec:
  assumes "vars req = Some al" and "al \<noteq> []"
    and "useMultipartRequestSpec c" and "\<not> useMultipartForm c"
  shows "Run L c ctx req resp =
           (Returns (Some (case Err ctx of
                Some err \<Rightarrow> err
              | None \<Rightarrow> New (''variables not supported due to the multipart request spec ''
                  @ ''https://github.com/jaydenseric/graphql-multipart-request-spec/issues/22''))),
            req, [])"
  using assms by (simp add: Run_def runMultipartRequestSpec_def len_map_pos split: option.splits)

theorem Run_variables_request_spec_witness:
  "Run (example_library (example_server 200 ''null''))
       (NewClient (example_library (example_server 200 ''null''))
          ''https://example.org/graphql'' [UseMultipartRequestSpec])
       (Context None)
       (Var ''key'' (VString ''value'') (NewRequest ''query {}'')) ()
     = (Returns (Some (New (''variables not supported due to the multipart request spec ''
          @ ''https://github.com/jaydenseric/graphql-multipart-request-spec/issues/22''))),
        Var ''key'' (VString ''value'') (NewRequest ''query {}''), [])"
  using Run_variables_request_spec [of "Var ''key'' (VString ''value'') (NewRequest ''query {}'')"
      "[(''key'', VString ''value'')]"
      "NewClient (example_library (example_server 200 ''null''))
          ''https://example.org/graphql'' [UseMultipartRequestSpec]"
      "example_library (example_server 200 ''null'')" "Context None" "()"]
  by (simp add: example_defs)

text \<open>
  Claim C3 as stated promises the precondition error on every call. With a context whose
  deadline has passed the call returns that error instead.
\<close>

theorem Run_variables_request_spec_counterexample:
  "vars (Var ''key'' (VString ''value'') (NewRequest ''query {}'')) = Some [(''key'', VString ''value'')] \<and>
   useMultipartRequestSpec (NewClient (example_library (example_server 200 ''null''))
                          ''https://example.org/graphql'' [UseMultipartRequestSpec]) \<and>
   \<not> useMultipartForm (NewClient (example_library (example_server 200 ''null''))
                          ''https://example.org/graphql'' [UseMultipartRequestSpec]) \<and>
   fst (Run (example_library (example_server 200 ''null''))
           (NewClient (example_library (example_server 200 ''null''))
              ''https://example.org/graphql'' [UseMultipartRequestSpec])
           (Context (Some DeadlineExceeded))
           (Var ''key'' (VString ''value'') (NewRequest ''query {}'')) ())
     = Returns (Some DeadlineExceeded) \<and>
   Returns (Some DeadlineExceeded) \<noteq>
     Returns (Some (New (''variables not supported due to the multipart request spec ''
        @ ''https://github.com/jaydenseric/graphql-multipart-request-spec/issues/22'')))"
  by (simp add: example_defs run_defs)

subsection \<open>The map of the request specification (C4)\<close>

text \<open>
  Claim C4, as the code has it. Take a request with \<open>N\<close> files. When the fieldnames, as
  encoding/json writes them, are pairwise distinct, the \<^verbatim>\<open>map\<close> document is a JSON object
  with exactly \<open>N\<close> entries, and the entry of the \<open>i\<close>-th file maps its fieldname to the
  one-element list \<^verbatim>\<open>["variables.files.<i>"]\<close>. For every request, \<^verbatim>\<open>operations.variables\<close>
  is \<^verbatim>\<open>{"files": [null, ..., null]}\<close> with \<open>N\<close> placeholders when \<open>N > 0\<close> and the empty
  object when \<open>N = 0\<close>, where the \<^verbatim>\<open>map\<close> document is empty too. And these two documents are
  what the encoder sends: in request-spec mode, with a context that is not done, a request
  without variables whose files can be read stages a multipart body that starts with the
  fields \<^verbatim>\<open>operations\<close> and \<^verbatim>\<open>map\<close> holding them, followed by the files.
\<close>

theorem fillMultipartRequestSpecQuery_documents:
  "(distinct (map (\<lambda>f. coerceUTF8 (Field f)) (files req)) \<longrightarrow>
      (\<exists>kvs. json_Marshal_Map (Map (fillMultipartRequestSpecQuery req)) = Inr (JObject kvs) \<and>
         length kvs = length (files req) \<and>
         (\<forall>i < length (files req).
            map_of kvs (coerceUTF8 (Field (files req ! i))) =
              Some (JArray [JString (''variables.files.'' @ Itoa (int i))])))) \<and>
   json_Marshal_operations (Operations (fillMultipartRequestSpecQuery req)) =
     Inr (JObject [(''query'', JString (q req)),
                   (''variables'',
                    if length (files req) > 0
                    then JObject [(''files'', JArray (replicate (length (files req)) JNull))]
                    else JObject [])]) \<and>
   (files req = [] \<longrightarrow>
      json_Marshal_Map (Map (fillMultipartRequestSpecQuery req)) = Inr (JObject [])) \<and>
   (useMultipartRequestSpec c \<and> \<not> useMultipartForm c \<and> Err ctx = None \<and>
    len_map (vars req) = 0 \<and> map (\<lambda>f. io_Copy (R f)) (files req) = map Inr contents \<longrightarrow>
      (\<exists>ops maps.
         json_Marshal_operations (Operations (fillMultipartRequestSpecQuery req)) = Inr ops \<and>
         json_Marshal_Map (Map (fillMultipartRequestSpecQuery req)) = Inr maps \<and>
         body (fst (snd (Run L c ctx req resp))) =
           Multipart (RandomBoundary L)
             (Part ''operations'' None (Doc ops) # Part ''map'' None (Doc maps) #
              map2 (\<lambda>f b. Part (Field f) (Some (Name f)) (Text b)) (files req) contents)))"
proof -
  define path where "path i = ''variables.files.'' @ Itoa (int i)" for i
  define g :: "string \<times> string list \<Rightarrow> string \<times> JSON"
    where "g = (\<lambda>(k, ps). (coerceUTF8 k, JArray (map JString ps)))"
  have J: "json_Marshal_Map m = Inr (JObject (map g (entries m)))" for m
    by (simp add: json_Marshal_Map_def g_def)
  have first: "\<exists>kvs. json_Marshal_Map (Map (fillMultipartRequestSpecQuery req)) = Inr (JObject kvs) \<and>
         length kvs = length (files req) \<and>
         (\<forall>i < length (files req).
            map_of kvs (coerceUTF8 (Field (files req ! i))) =
              Some (JArray [JString (''variables.files.'' @ Itoa (int i))]))"
    if D: "distinct (map (\<lambda>f. coerceUTF8 (Field f)) (files req))"
  proof -
    define m where
      "m = map (\<lambda>(index, file). (Field file, [path index])) (enumerate 0 (files req))"
    define kvs where "kvs = map g (entries m)"
    have "distinct (map coerceUTF8 (map Field (files req)))"
      using D by (simp add: comp_def)
    then have raw: "distinct (map Field (files req))"
      by (rule distinct_map [THEN iffD1, THEN conjunct1])
    have M: "Map (fillMultipartRequestSpecQuery req) = m"
      unfolding m_def path_def by (rule fill_Map_distinct [OF raw])
    have keys: "map fst m = map Field (files req)"
      by (simp add: m_def case_prod_unfold comp_def map_Field_enumerate)
    then have "distinct (map fst m)"
      using raw by simp
    then have E: "entries m = sort_key fst m"
      by (rule entries_distinct)
    have "length kvs = length m"
      by (simp add: kvs_def E)
    then have len: "length kvs = length (files req)"
      by (simp add: m_def)
    have "map (\<lambda>p. coerceUTF8 (fst p)) m = map (\<lambda>f. coerceUTF8 (Field f)) (files req)"
      using keys by (metis (no_types, lifting) map_map comp_def map_eq_conv)
    with D have dm: "distinct (map (\<lambda>p. coerceUTF8 (fst p)) m)"
      by simp
    have fstg: "map fst kvs = map (\<lambda>p. coerceUTF8 (fst p)) (sort_key fst m)"
      by (simp add: kvs_def g_def E case_prod_unfold comp_def)
    have dkvs: "distinct (map fst kvs)"
      unfolding fstg distinct_map_sort_key by (rule dm)
    have look: "map_of kvs (coerceUTF8 (Field (files req ! i))) = Some (JArray [JString (path i)])"
      if "i < length (files req)" for i
    proof -
      from that have "(i, files req ! i) \<in> set (enumerate 0 (files req))"
        by (simp add: in_set_enumerate_eq)
      then have "(Field (files req ! i), [path i]) \<in> set m"
        unfolding m_def by force
      then have "(Field (files req ! i), [path i]) \<in> set (entries m)"
        by (simp add: E)
      then have "g (Field (files req ! i), [path i]) \<in> set kvs"
        unfolding kvs_def set_map by (rule imageI)
      then have "(coerceUTF8 (Field (files req ! i)), JArray [JString (path i)]) \<in> set kvs"
        by (simp add: g_def)
      with dkvs show ?thesis
        by (simp only: map_of_eq_Some_iff)
    qed
    have "json_Marshal_Map (Map (fillMultipartRequestSpecQuery req)) = Inr (JObject kvs)"
      by (simp only: M J kvs_def)
    with len look show ?thesis
      unfolding path_def by blast
  qed
  have second: "json_Marshal_operations (Operations (fillMultipartRequestSpecQuery req)) =
     Inr (JObject [(''query'', JString (q req)),
                   (''variables'',
                    if length (files req) > 0
                    then JObject [(''files'', JArray (replicate (length (files req)) JNull))]
                    else JObject [])])"
    by (simp add: fill_Operations json_Marshal_operations_def json_Marshal_variables_def
        collect_replicate)
  have third: "json_Marshal_Map (Map (fillMultipartRequestSpecQuery req)) = Inr (JObject [])"
    if "files req = []"
    using that
    by (simp add: fillMultipartRequestSpecQuery_def Files_def json_Marshal_Map_def entries_def)
  have fourth: "\<exists>ops maps.
         json_Marshal_operations (Operations (fillMultipartRequestSpecQuery req)) = Inr ops \<and>
         json_Marshal_Map (Map (fillMultipartRequestSpecQuery req)) = Inr maps \<and>
         body (fst (snd (Run L c ctx req resp))) =
           Multipart (RandomBoundary L)
             (Part ''operations'' None (Doc ops) # Part ''map'' None (Doc maps) #
              map2 (\<lambda>f b. Part (Field f) (Some (Name f)) (Text b)) (files req) contents)"
    if mode: "useMultipartRequestSpec c" "\<not> useMultipartForm c" and live: "Err ctx = None"
      and novars: "len_map (vars req) = 0"
      and readable: "map (\<lambda>f. io_Copy (R f)) (files req) = map Inr contents"
  proof -
    from mode live have run: "Run L c ctx req resp = runMultipartRequestSpec L c ctx req resp"
      by (simp add: Run_def)
    obtain ops where ops: "json_Marshal_operations (Operations (fillMultipartRequestSpecQuery req))
        = Inr ops"
      using second by blast
    obtain maps where maps: "json_Marshal_Map (Map (fillMultipartRequestSpecQuery req)) = Inr maps"
      using J by blast
    from runMultipartRequestSpec_body [OF novars ops maps readable, of L c ctx resp]
    have "body (fst (snd (Run L c ctx req resp))) =
           Multipart (RandomBoundary L)
             (Part ''operations'' None (Doc ops) # Part ''map'' None (Doc maps) #
              map2 (\<lambda>f b. Part (Field f) (Some (Name f)) (Text b)) (files req) contents)"
      by (simp add: run)
    with ops maps show ?thesis by blast
  qed
  from first second third fourth show ?thesis by blast
qed

text \<open>
  Two files under \<^verbatim>\<open>a\<close> and \<^verbatim>\<open>b\<close>: the two documents, and the body that carries them.
\<close>

theorem fillMultipartRequestSpecQuery_documents_witness:
  "json_Marshal_Map (Map (fillMultipartRequestSpecQuery
       (File ''b'' ''b.txt'' (Reader ''B'')
          (File ''a'' ''a.txt'' (Reader ''A'') (NewRequest ''mutation {}'')))))
     = Inr (JObject [(''a'', JArray [JString ''variables.files.0'']),
                     (''b'', JArray [JString ''variables.files.1''])]) \<and>
   json_Marshal_operations (Operations (fillMultipartRequestSpecQuery
       (File ''b'' ''b.txt'' (Reader ''B'')
          (File ''a'' ''a.txt'' (Reader ''A'') (NewRequest ''mutation {}'')))))
     = Inr (JObject [(''query'', JString ''mutation {}''),
                     (''variables'', JObject [(''files'', JArray [JNull, JNull])])]) \<and>
   body (fst (snd (Run (example_library (example_server 200 ''null''))
       (NewClient (example_library (example_server 200 ''null''))
          ''https://example.org/graphql'' [UseMultipartRequestSpec])
       (Context None)
       (File ''b'' ''b.txt'' (Reader ''B'')
          (File ''a'' ''a.txt'' (Reader ''A'') (NewRequest ''mutation {}''))) ())))
     = Multipart ''4f178ca388ca''
         [Part ''operations'' None
            (Doc (JObject [(''query'', JString ''mutation {}''),
                           (''variables'', JObject [(''files'', JArray [JNull, JNull])])])),
          Part ''map'' None
            (Doc (JObject [(''a'', JArray [JString ''variables.files.0'']),
                           (''b'', JArray [JString ''variables.files.1''])])),
          Part ''a'' (Some ''a.txt'') (Text ''A''),
          Part ''b'' (Some ''b.txt'') (Text ''B'')]"
  using fillMultipartRequestSpecQuery_documents
    [of "File ''b'' ''b.txt'' (Reader ''B'')
          (File ''a'' ''a.txt'' (Reader ''A'') (NewRequest ''mutation {}''))"
        "NewClient (example_library (example_server 200 ''null''))
          ''https://example.org/graphql'' [UseMultipartRequestSpec]"
        "Context None" "[''A'', ''B'']" "example_library (example_server 200 ''null'')" "()"]
  by (simp add: example_defs encoder_defs Itoa_def digit_def)

text \<open>
  Claim C4 as stated counts \<open>N\<close> entries for every request. The map is keyed by fieldname:
  two files under the same fieldname share one entry, which points at the later file.
\<close>

theorem fillMultipartRequestSpecQuery_duplicate_fields_counterexample:
  "length (files (File ''file'' ''b.txt'' (Reader ''B'')
             (File ''file'' ''a.txt'' (Reader ''A'') (NewRequest ''mutation {}'')))) = 2 \<and>
   vars (File ''file'' ''b.txt'' (Reader ''B'')
             (File ''file'' ''a.txt'' (Reader ''A'') (NewRequest ''mutation {}''))) = None \<and>
   json_Marshal_Map (Map (fillMultipartRequestSpecQuery
       (File ''file'' ''b.txt'' (Reader ''B'')
          (File ''file'' ''a.txt'' (Reader ''A'') (NewRequest ''mutation {}'')))))
     = Inr (JObject [(''file'', JArray [JString ''variables.files.1''])])"
  by (simp add: example_defs encoder_defs Itoa_def digit_def)

text \<open>
  Two fieldnames that differ as Go strings and are written as the same key: the bytes
  \<^verbatim>\<open>FE\<close> and \<^verbatim>\<open>FF\<close> are no UTF-8, and the encoder writes each as U+FFFD. The map has two
  entries, and the object two members under one key.
\<close>

lemma json_Marshal_Map_invalid_UTF8_keys:
  "json_Marshal_Map (Map (fillMultipartRequestSpecQuery
       (File [CHR 0xFF] ''b.txt'' (Reader ''B'')
          (File [CHR 0xFE] ''a.txt'' (Reader ''A'') (NewRequest ''mutation {}'')))))
     = Inr (JObject [([CHR 0xEF, CHR 0xBF, CHR 0xBD], JArray [JString ''variables.files.0'']),
                     ([CHR 0xEF, CHR 0xBF, CHR 0xBD], JArray [JString ''variables.files.1''])])"
  by (simp add: example_defs encoder_defs Itoa_def digit_def)

subsection \<open>Decode failures and the HTTP status (C5)\<close>

text \<open>
  Claim C5, as the code has it. When \<^verbatim>\<open>Run\<close> handed a request to the HTTP client, the client
  answered, the body was read and decoding it failed, the call returns the error that
  carries the status code if the status is not 200 (\<^verbatim>\<open>http.StatusOK\<close>), and the decode
  error, wrapped, if the status is 200.
\<close>

theorem Run_decode_failure:
  assumes "snd (snd (Run L c ctx req resp)) = [r]" and "httpClient c = Some do"
    and "do r = Inr res" and "io_Copy (ResBody res) = Inr buf"
    and "json_Decode L buf resp = Inl err"
  shows "fst (Run L c ctx req resp) =
           Returns (Some (if StatusCode res \<noteq> StatusOK
                          then Errorf (''graphql: server returned a non-200 status code: ''
                                         @ Itoa (StatusCode res))
                          else Wrap err ''failed to decode response''))"
proof -
  from assms(1) have "makeRequest L c ctx (fst (snd (Run L c ctx req resp))) resp =
      (fst (Run L c ctx req resp), [r])"
    using Run_sent [of L c ctx req resp] by simp
  from makeRequest_sent [OF this assms(2)] assms(3-5) show ?thesis
    by (simp add: decodeResponse_def)
qed

text \<open>
  A status 500 with an HTML page, and a status 200 with truncated JSON.
\<close>

theorem Run_decode_failure_witness:
  \<open>fst (Run (example_library (example_server 500 ''<html>Internal Server Error</html>''))
          (NewClient (example_library (example_server 500 ''<html>Internal Server Error</html>''))
             ''https://example.org/graphql'' [])
          (Context None) (NewRequest ''query { hero { name } }'') ())
     = Returns (Some (Errorf ''graphql: server returned a non-200 status code: 500'')) \<and>
   fst (Run (example_library (example_server 200 ''{"data":''))
          (NewClient (example_library (example_server 200 ''{"data":''))
             ''https://example.org/graphql'' [])
          (Context None) (NewRequest ''query { hero { name } }'') ())
     = Returns (Some (Wrap (Opaque ''invalid character'') ''failed to decode response''))\<close>
proof -
  let ?req = "NewRequest ''query { hero { name } }''"
  let ?s500 = "example_server 500 ''<html>Internal Server Error</html>''"
  let ?L500 = "example_library ?s500"
  let ?c500 = "NewClient ?L500 ''https://example.org/graphql'' []"
  let ?s200 = \<open>example_server 200 ''{"data":''\<close>
  let ?L200 = "example_library ?s200"
  let ?c200 = "NewClient ?L200 ''https://example.org/graphql'' []"
  have a: "fst (Run ?L500 ?c500 (Context None) ?req ())
      = Returns (Some (Errorf ''graphql: server returned a non-200 status code: 500''))"
    using Run_decode_failure [of ?L500 ?c500 "Context None" ?req "()"
        "hd (snd (snd (Run ?L500 ?c500 (Context None) ?req ())))" ?s500
        "\<lparr>StatusCode = 500, ResBody = Reader ''<html>Internal Server Error</html>''\<rparr>"
        "''<html>Internal Server Error</html>''" "Opaque ''invalid character''"]
    by (simp add: example_defs run_defs)
  have b: "fst (Run ?L200 ?c200 (Context None) ?req ())
      = Returns (Some (Wrap (Opaque ''invalid character'') ''failed to decode response''))"
    using Run_decode_failure [of ?L200 ?c200 "Context None" ?req "()"
        "hd (snd (snd (Run ?L200 ?c200 (Context None) ?req ())))" ?s200
        \<open>\<lparr>StatusCode = 200, ResBody = Reader ''{"data":''\<rparr>\<close>
        \<open>''{"data":''\<close> "Opaque ''invalid character''"]
    by (simp add: example_defs run_defs)
  from a b show ?thesis by blast
qed

text \<open>
  Claim C5 as stated promises the decode error for every success status. The code tests
  for 200 alone: a status 201 with a body that does not decode gives the error that
  carries the status code.
\<close>

theorem Run_decode_failure_status_201_counterexample:
  "http_success_status 201 \<and>
   example_Decode ''Created'' () = Inl (Opaque ''invalid character'') \<and>
   fst (Run (example_library (example_server 201 ''Created''))
          (NewClient (example_library (example_server 201 ''Created''))
             ''https://example.org/graphql'' [])
          (Context None) (NewRequest ''mutation { create }'') ())
     = Returns (Some (Errorf ''graphql: server returned a non-200 status code: 201'')) \<and>
   fst (Run (example_library (example_server 201 ''Created''))
          (NewClient (example_library (example_server 201 ''Created''))
             ''https://example.org/graphql'' [])
          (Context None) (NewRequest ''mutation { create }'') ())
     \<noteq> Returns (Some (Wrap (Opaque ''invalid character'') ''failed to decode response''))"
  by (simp add: http_success_status_def example_defs run_defs)

subsection \<open>Errors reported by the server (C6)\<close>

text \<open>
  Claim C6. When the response decoded into an envelope \<open>gr\<close>, whatever its \<^verbatim>\<open>Data\<close>: if the
  list \<^verbatim>\<open>Errors\<close> is not empty the call returns its first element as the error, whose text
  is \<^verbatim>\<open>graphql: \<close> followed by the element's message; and the call returns \<^verbatim>\<open>nil\<close> exactly
  when the list is empty.
\<close>

theorem Run_server_errors:
  assumes "snd (snd (Run L c ctx req resp)) = [r]" and "httpClient c = Some do"
    and "do r = Inr res" and "io_Copy (ResBody res) = Inr buf"
    and "json_Decode L buf resp = Inr (Some gr)"
  shows "(Errors gr \<noteq> [] \<longrightarrow>
            fst (Run L c ctx req resp) = Returns (Some (GraphErr (hd (Errors gr)))) \<and>
            Error (GraphErr (hd (Errors gr))) = ''graphql: '' @ Message (hd (Errors gr))) \<and>
         (fst (Run L c ctx req resp) = Returns None \<longleftrightarrow> Errors gr = [])"
proof -
  from assms(1) have "makeRequest L c ctx (fst (snd (Run L c ctx req resp))) resp =
      (fst (Run L c ctx req resp), [r])"
    using Run_sent [of L c ctx req resp] by simp
  from makeRequest_sent [OF this assms(2)] assms(3-5) show ?thesis
    by (simp add: decodeResponse_def hd_conv_nth)
qed

theorem Run_server_errors_witness:
  \<open>fst (Run (example_library (example_server 200
               ''{"data":{"hero":null},"errors":[{"message":"boom"},{"message":"late"}]}''))
          (NewClient (example_library (example_server 200
               ''{"data":{"hero":null},"errors":[{"message":"boom"},{"message":"late"}]}''))
             ''https://example.org/graphql'' [])
          (Context None) (NewRequest ''query { hero { name } }'') ())
     = Returns (Some (GraphErr \<lparr>Message = ''boom''\<rparr>)) \<and>
   Error (GraphErr \<lparr>Message = ''boom''\<rparr>) = ''graphql: boom''\<close>
proof -
  let ?bytes = \<open>''{"data":{"hero":null},"errors":[{"message":"boom"},{"message":"late"}]}''\<close>
  let ?L = "example_library (example_server 200 ?bytes)"
  let ?c = "NewClient ?L ''https://example.org/graphql'' []"
  let ?req = "NewRequest ''query { hero { name } }''"
  show ?thesis
    using Run_server_errors [of ?L ?c "Context None" ?req "()"
        "hd (snd (snd (Run ?L ?c (Context None) ?req ())))" "example_server 200 ?bytes"
        "\<lparr>StatusCode = 200, ResBody = Reader ?bytes\<rparr>" ?bytes
        "\<lparr>Data = Some (JObject [(''hero'', JNull)]),
          Errors = [\<lparr>Message = ''boom''\<rparr>, \<lparr>Message = ''late''\<rparr>]\<rparr>"]
    by (simp add: example_defs run_defs)
qed

subsection \<open>A context that is already done (C7)\<close>

text \<open>
  Claim C7. When the context is already done as \<^verbatim>\<open>Run\<close> is called, the call returns the
  context's error, the request is left as it was (nothing is encoded), and no request is
  handed to the HTTP client.
\<close>

theorem Run_cancelled_before_send:
  "Err ctx = Some err \<Longrightarrow> Run L c ctx req resp = (Returns (Some err), req, [])"
  by (simp add: Run_def)

theorem Run_cancelled_before_send_witness:
  "Run (example_library (example_server 200 ''null''))
       (NewClient (example_library (example_server 200 ''null'')) ''https://example.org/graphql'' [])
       (Context (Some Canceled)) (Var ''key'' (VString ''value'') (NewRequest ''query {}'')) ()
   = (Returns (Some Canceled), Var ''key'' (VString ''value'') (NewRequest ''query {}''), [])"
  using Run_cancelled_before_send [of "Context (Some Canceled)" Canceled]
  by simp

subsection \<open>The body in multipart-form mode (C8)\<close>

text \<open>
  Claim C8. With the multipart-form option and a context that is not done, a request whose
  variables can be encoded and whose files can be read stages a multipart body of these
  parts, in this order: the field \<^verbatim>\<open>query\<close> with the query text; the field \<^verbatim>\<open>variables\<close>
  with the JSON text of the variable mapping, present exactly when the mapping is not
  empty; and one file part per attachment, in attachment order, under the attachment's
  fieldname and filename. Every request handed to the HTTP client carries that body.
\<close>

theorem Run_multipart_form_body:
  assumes "useMultipartForm c" and "Err ctx = None"
    and "json_Marshal_map (vars req) = Inr doc"
    and "map (\<lambda>f. io_Copy (R f)) (files req) = map Inr contents"
  shows "fst (snd (Run L c ctx req resp)) =
           req\<lparr>body := Multipart (RandomBoundary L)
                  (Part ''query'' None (Text (q req)) #
                   (if len_map (vars req) > 0 then [Part ''variables'' None (Doc doc)] else []) @
                   map2 (\<lambda>f b. Part (Field f) (Some (Name f)) (Text b)) (files req) contents),
               contentType := ''multipart/form-data; boundary='' @ RandomBoundary L\<rparr> \<and>
         (\<forall>r \<in> set (snd (snd (Run L c ctx req resp))).
            Body r = Multipart (RandomBoundary L)
                  (Part ''query'' None (Text (q req)) #
                   (if len_map (vars req) > 0 then [Part ''variables'' None (Doc doc)] else []) @
                   map2 (\<lambda>f b. Part (Field f) (Some (Name f)) (Text b)) (files req) contents))"
proof -
  define ps where "ps = Part ''query'' None (Text (q req)) #
                   (if len_map (vars req) > 0 then [Part ''variables'' None (Doc doc)] else []) @
                   map2 (\<lambda>f b. Part (Field f) (Some (Name f)) (Text b)) (files req) contents"
  define req' where "req' =
     req\<lparr>body := Multipart (RandomBoundary L) ps,
         contentType := ''multipart/form-data; boundary='' @ RandomBoundary L\<rparr>"
  have w1: "WriteField ''query'' (Text (q req)) (NewWriter L) =
      Inr \<lparr>boundary = RandomBoundary L, parts = [Part ''query'' None (Text (q req))]\<rparr>"
    by (simp add: WriteField_def CreateFormField_def NewWriter_def Write_def)
  have w2: "writeVariables (vars req)
        \<lparr>boundary = RandomBoundary L, parts = [Part ''query'' None (Text (q req))]\<rparr> =
      Inr \<lparr>boundary = RandomBoundary L,
           parts = Part ''query'' None (Text (q req)) #
             (if len_map (vars req) > 0 then [Part ''variables'' None (Doc doc)] else [])\<rparr>"
    using assms(3) by (simp add: writeVariables_def CreateFormField_def Write_def)
  have w3: "addFiles (files req)
        \<lparr>boundary = RandomBoundary L,
         parts = Part ''query'' None (Text (q req)) #
             (if len_map (vars req) > 0 then [Part ''variables'' None (Doc doc)] else [])\<rparr> =
      Inr \<lparr>boundary = RandomBoundary L, parts = ps\<rparr>"
    by (simp add: addFiles_readable [OF assms(4)] ps_def)
  have run: "Run L c ctx req resp =
      (fst (makeRequest L c ctx req' resp), req', snd (makeRequest L c ctx req' resp))"
    using assms(1,2)
    by (simp add: Run_def runWithPostFields_def w1 w2 w3 Close_Writer_def
        FormDataContentType_def req'_def Let_def split: prod.splits)
  have "Body r = Multipart (RandomBoundary L) ps"
    if "r \<in> set (snd (makeRequest L c ctx req' resp))" for r
    using makeRequest_Body [OF that] by (simp add: req'_def)
  with run show ?thesis
    unfolding ps_def req'_def by simp
qed

text \<open>
  Two files under \<^verbatim>\<open>a\<close> and \<^verbatim>\<open>b\<close> and the variable \<^verbatim>\<open>x\<close> set to 1: four parts, and the
  \<^verbatim>\<open>variables\<close> field is \<^verbatim>\<open>{"x":1}\<close>.
\<close>

theorem Run_multipart_form_body_witness:
  "body (fst (snd (Run (example_library (example_server 200 ''null''))
          (NewClient (example_library (example_server 200 ''null''))
             ''https://example.org/graphql'' [UseMultipartForm])
          (Context None)
          (File ''b'' ''b.txt'' (Reader ''BB'') (File ''a'' ''a.txt'' (Reader ''AA'')
             (Var ''x'' (VInt 1) (NewRequest ''query {}'')))) ())))
     = Multipart ''4f178ca388ca''
         [Part ''query'' None (Text ''query {}''),
          Part ''variables'' None (Doc (JObject [(''x'', JNumber 1)])),
          Part ''a'' (Some ''a.txt'') (Text ''AA''),
          Part ''b'' (Some ''b.txt'') (Text ''BB'')]"
  using Run_multipart_form_body
    [of "NewClient (example_library (example_server 200 ''null''))
             ''https://example.org/graphql'' [UseMultipartForm]"
        "Context None"
        "File ''b'' ''b.txt'' (Reader ''BB'') (File ''a'' ''a.txt'' (Reader ''AA'')
             (Var ''x'' (VInt 1) (NewRequest ''query {}'')))"
        "JObject [(''x'', JNumber 1)]" "[''AA'', ''BB'']"
        "example_library (example_server 200 ''null'')" "()"]
  by (simp add: example_defs json_Marshal_map_def entries_def len_map_def between_def accept_def)

subsection \<open>Both multipart options (C9)\<close>

text \<open>
  Claim C9. For a client made with both the multipart-form and the request-spec option,
  \<^verbatim>\<open>Run\<close> is \<^verbatim>\<open>runWithPostFields\<close> on every call that gets past the check of the context:
  the request-spec encoder and its check of the variables play no part.
\<close>

theorem Run_both_multipart_options:
  assumes "UseMultipartForm \<in> set opts" and "UseMultipartRequestSpec \<in> set opts"
  shows "Run L (NewClient L ep opts) ctx req resp =
           (case Err ctx of
              Some err \<Rightarrow> (Returns (Some err), req, [])
            | None \<Rightarrow> runWithPostFields L (NewClient L ep opts) ctx req resp)"
  using assms
  by (simp add: Run_def NewClient_useMultipartForm split: option.splits)

text \<open>
  A request with a variable, which the request-spec encoder would refuse, is encoded as a
  multipart form.
\<close>

theorem Run_both_multipart_options_witness:
  "Run (example_library (example_server 200 ''null''))
       (NewClient (example_library (example_server 200 ''null''))
          ''https://example.org/graphql'' [UseMultipartRequestSpec, UseMultipartForm])
       (Context None) (Var ''x'' (VInt 1) (NewRequest ''query {}'')) ()
   = runWithPostFields (example_library (example_server 200 ''null''))
       (NewClient (example_library (example_server 200 ''null''))
          ''https://example.org/graphql'' [UseMultipartRequestSpec, UseMultipartForm])
       (Context None) (Var ''x'' (VInt 1) (NewRequest ''query {}'')) () \<and>
   body (fst (snd (Run (example_library (example_server 200 ''null''))
       (NewClient (example_library (example_server 200 ''null''))
          ''https://example.org/graphql'' [UseMultipartRequestSpec, UseMultipartForm])
       (Context None) (Var ''x'' (VInt 1) (NewRequest ''query {}'')) ())))
   = Multipart ''4f178ca388ca''
         [Part ''query'' None (Text ''query {}''),
          Part ''variables'' None (Doc (JObject [(''x'', JNumber 1)]))]"
proof -
  let ?L = "example_library (example_server 200 ''null'')"
  let ?opts = "[UseMultipartRequestSpec, UseMultipartForm]"
  let ?req = "Var ''x'' (VInt 1) (NewRequest ''query {}'')"
  have "Run ?L (NewClient ?L ''https://example.org/graphql'' ?opts) (Context None) ?req ()
      = runWithPostFields ?L (NewClient ?L ''https://example.org/graphql'' ?opts)
          (Context None) ?req ()"
    using Run_both_multipart_options [of ?opts ?L "''https://example.org/graphql''"
        "Context None" ?req "()"]
    by simp
  then show ?thesis
    by (simp add: example_defs run_defs encoder_defs)
qed

subsection \<open>Success whatever the status (C10)\<close>

text \<open>
  Claim C10. When the response decoded into an envelope whose list \<^verbatim>\<open>Errors\<close> is empty,
  the call returns \<^verbatim>\<open>nil\<close>, whatever the status code of the response.
\<close>

theorem Run_success_any_status:
  assumes "snd (snd (Run L c ctx req resp)) = [r]" and "httpClient c = Some do"
    and "do r = Inr res" and "io_Copy (ResBody res) = Inr buf"
    and "json_Decode L buf resp = Inr (Some gr)" and "Errors gr = []"
  shows "fst (Run L c ctx req resp) = Returns None"
proof -
  from assms(1) have "makeRequest L c ctx (fst (snd (Run L c ctx req resp))) resp =
      (fst (Run L c ctx req resp), [r])"
    using Run_sent [of L c ctx req resp] by simp
  from makeRequest_sent [OF this assms(2)] assms(3-6) show ?thesis
    by (simp add: decodeResponse_def)
qed

text \<open>
  A status 500 with a well-formed envelope and no errors.
\<close>

theorem Run_success_any_status_witness:
  \<open>fst (Run (example_library (example_server 500 ''{"data":{"hero":{"name":"R2-D2"}}}''))
          (NewClient (example_library (example_server 500 ''{"data":{"hero":{"name":"R2-D2"}}}''))
             ''https://example.org/graphql'' [])
          (Context None) (NewRequest ''query { hero { name } }'') ())
     = Returns None\<close>
proof -
  let ?bytes = \<open>''{"data":{"hero":{"name":"R2-D2"}}}''\<close>
  let ?L = "example_library (example_server 500 ?bytes)"
  let ?c = "NewClient ?L ''https://example.org/graphql'' []"
  let ?req = "NewRequest ''query { hero { name } }''"
  show ?thesis
    using Run_success_any_status [of ?L ?c "Context None" ?req "()"
        "hd (snd (snd (Run ?L ?c (Context None) ?req ())))" "example_server 500 ?bytes"
        "\<lparr>StatusCode = 500, ResBody = Reader ?bytes\<rparr>" ?bytes
        "\<lparr>Data = Some (JObject [(''hero'', JObject [(''name'', JString ''R2-D2'')])]),
          Errors = []\<rparr>"]
    by (simp add: example_defs run_defs)
qed

end
